theory Spec2Isabelle
  imports Main
begin

section \<open>Python values and exceptions as the script observes them\<close>

text \<open>
  The script \<^verbatim>\<open>run.py\<close> is glue around collaborators it imports: the session
  service, the runner, the pipeline object, \<^verbatim>\<open>pprint\<close>, \<^verbatim>\<open>str\<close> and attribute
  access on the result items. None of them is defined in the repository, so each is a
  parameter of the model, and each call that depends on an object coming from outside
  may raise.

  An exception is known by the method resolution order of its class (the names of the
  class and of its bases) and by its message. \<^verbatim>\<open>except Exception\<close> catches an exception
  when \<^verbatim>\<open>Exception\<close> is among these classes.
\<close>

datatype pyexc = PyExc (exc_mro: "string list") (exc_msg: string)

definition isinstance_exc :: "pyexc \<Rightarrow> string \<Rightarrow> bool" where
  "isinstance_exc e c = (c \<in> set (exc_mro e))"

text \<open>
  What the script asks of a Python object of type \<open>'obj\<close>: the method resolution order
  of its type (for \<^verbatim>\<open>isinstance\<close>), what \<^verbatim>\<open>pprint\<close> writes for it (the lines written
  to standard output, and the exception that ended the call, if any), its \<^verbatim>\<open>__dict__\<close>
  attribute, and its \<^verbatim>\<open>str\<close> form. \<open>print_impl\<close> is what \<^verbatim>\<open>print\<close> does with a text
  that comes from such an object: \<open>None\<close> when the text is written, or the exception
  \<^verbatim>\<open>print\<close> raises (\<^verbatim>\<open>UnicodeEncodeError\<close> for a text the encoding of standard output
  cannot represent). \<^verbatim>\<open>isinstance(x, dict)\<close> holds when \<^verbatim>\<open>dict\<close> is in
  the method resolution order of the type of \<^verbatim>\<open>x\<close>: for dict itself and for every
  subclass of it.
\<close>

record 'obj pylib =
  type_mro :: "'obj \<Rightarrow> string list"
  pprint_impl :: "'obj \<Rightarrow> string list \<times> pyexc option"
  getattr_dict :: "'obj \<Rightarrow> pyexc + 'obj"
  str_impl :: "'obj \<Rightarrow> pyexc + string"
  print_impl :: "string \<Rightarrow> pyexc option"

definition isinstance :: "'obj pylib \<Rightarrow> 'obj \<Rightarrow> string \<Rightarrow> bool" where
  "isinstance L x c = (c \<in> set (type_mro L x))"

text \<open>The message handed to the runner: \<^verbatim>\<open>UserContent([Part(text="run")])\<close>.\<close>

datatype part = Part (part_text: string)

datatype content = Content (role: string) (parts: "part list")

definition UserContent :: "part list \<Rightarrow> content" where
  "UserContent ps = Content ''user'' ps"

section \<open>Effects: a trace of the script's operations, and exceptions as values\<close>

text \<open>
  Every operation the script performs on the process or on a collaborator is one event,
  in the order the script performs it. \<open>Ev_import\<close> is an import statement, with the
  module it names. \<open>Ev_stdout\<close> is text written to standard output by \<^verbatim>\<open>print\<close> or by
  \<^verbatim>\<open>pprint\<close>: a line, or what was written of it before the call raised. \<open>Ev_next\<close> is
  one step of the \<^verbatim>\<open>for\<close> loop asking the result stream for its next item.
\<close>

datatype 'obj event =
    Ev_import string
  | Ev_load_dotenv
  | Ev_path_insert nat string
  | Ev_stdout string
  | Ev_new_service
  | Ev_create_session string string string
  | Ev_Runner 'obj string
  | Ev_run string string content
  | Ev_next
  | Ev_pprint 'obj
  | Ev_getattr_dict 'obj
  | Ev_str 'obj

text \<open>
  A computation yields the events it performed and either the exception it raised
  (\<open>Inl\<close>) or its value (\<open>Inr\<close>). \<open>bnd\<close> is sequencing: an exception in the first
  part skips the rest.
\<close>

type_synonym ('obj, 'a) py = "'obj event list \<times> (pyexc + 'a)"

definition ret :: "'a \<Rightarrow> ('obj, 'a) py" where
  "ret a = ([], Inr a)"

definition call :: "'obj event \<Rightarrow> pyexc + 'a \<Rightarrow> ('obj, 'a) py" where
  "call ev outcome = ([ev], outcome)"

definition bnd :: "('obj, 'a) py \<Rightarrow> ('a \<Rightarrow> ('obj, 'b) py) \<Rightarrow> ('obj, 'b) py" where
  "bnd m f =
     (case m of
        (tr, Inl e) \<Rightarrow> (tr, Inl e)
      | (tr, Inr a) \<Rightarrow> (case f a of (tr', r) \<Rightarrow> (tr @ tr', r)))"

text \<open>
  \<^verbatim>\<open>try: body except Exception: handler\<close>. An exception of the body that is an instance
  of \<^verbatim>\<open>Exception\<close> runs the handler; any other exception goes on. An exception raised
  by the handler is not caught.
\<close>

definition try_except_Exception :: "('obj, 'a) py \<Rightarrow> ('obj, 'a) py \<Rightarrow> ('obj, 'a) py" where
  "try_except_Exception body handler =
     (case body of
        (tr, Inr a) \<Rightarrow> (tr, Inr a)
      | (tr, Inl e) \<Rightarrow>
          if isinstance_exc e ''Exception''
          then (case handler of (tr', r) \<Rightarrow> (tr @ tr', r))
          else (tr, Inl e))"

text \<open>
  \<^verbatim>\<open>print\<close> of a line of the script's own (lines 31, 46 and 52): standard output is
  taken to be open, and the line is written.
\<close>

definition print_line :: "string \<Rightarrow> ('obj, unit) py" where
  "print_line s = call (Ev_stdout s) (Inr ())"

text \<open>
  \<^verbatim>\<open>print\<close> of a text that comes from a result item (line 60): the text is written,
  or \<^verbatim>\<open>print\<close> raises and nothing is written.
\<close>

definition print_text :: "'obj pylib \<Rightarrow> string \<Rightarrow> ('obj, unit) py" where
  "print_text L s =
     (case print_impl L s of
        None \<Rightarrow> call (Ev_stdout s) (Inr ())
      | Some e \<Rightarrow> ([], Inl e))"

definition pprint :: "'obj pylib \<Rightarrow> 'obj \<Rightarrow> ('obj, unit) py" where
  "pprint L x =
     (case pprint_impl L x of
        (out, ex) \<Rightarrow>
          (Ev_pprint x # map Ev_stdout out,
           case ex of None \<Rightarrow> Inr () | Some e \<Rightarrow> Inl e))"

definition dunder_dict :: "'obj pylib \<Rightarrow> 'obj \<Rightarrow> ('obj, 'obj) py" where
  "dunder_dict L x = call (Ev_getattr_dict x) (getattr_dict L x)"

definition str :: "'obj pylib \<Rightarrow> 'obj \<Rightarrow> ('obj, string) py" where
  "str L x = call (Ev_str x) (str_impl L x)"

section \<open>The result loop (run.py, lines 53 to 60)\<close>

text \<open>
  \<^verbatim>\<open>
      for result in result_gen:
          if isinstance(result, dict):
              pprint(result)
          else:
              try:
                  pprint(result.__dict__)
              except Exception:
                  print(str(result))
  \<close>
\<close>

definition report_item :: "'obj pylib \<Rightarrow> 'obj \<Rightarrow> ('obj, unit) py" where
  "report_item L result =
     (if isinstance L result ''dict''
      then pprint L result
      else try_except_Exception
             (bnd (dunder_dict L result) (\<lambda>d. pprint L d))
             (bnd (str L result) (\<lambda>s. print_text L s)))"

text \<open>
  The result stream is what iterating \<^verbatim>\<open>result_gen\<close> does, step by step: it yields an
  item or raises; the end of the list is \<^verbatim>\<open>StopIteration\<close>. The streams modelled are
  the finite ones.
\<close>

datatype 'obj gen_step = Yield 'obj | GenRaise pyexc

fun report_loop :: "'obj pylib \<Rightarrow> 'obj gen_step list \<Rightarrow> ('obj, unit) py" where
  "report_loop L [] = call Ev_next (Inr ())"
| "report_loop L (GenRaise e # rest) = call Ev_next (Inl e)"
| "report_loop L (Yield r # rest) =
     bnd (call Ev_next (Inr r)) (\<lambda>result.
     bnd (report_item L result) (\<lambda>_.
     report_loop L rest))"

section \<open>The script\<close>

text \<open>
  The collaborators and the process facts the script reads. \<open>create_session\<close> returns
  the session service as the call leaves it (the script drops the session object
  itself); \<open>Runner\<close> is the constructor and \<open>run\<close> the method \<^verbatim>\<open>runner.run\<close>, which
  returns the result stream.
\<close>

record ('obj, 'svc, 'rnr) world =
  dunder_file :: string
  dunder_name :: string
  os_path_abspath :: "string \<Rightarrow> string"
  os_path_dirname :: "string \<Rightarrow> string"
  sre_pipeline :: 'obj
  lib :: "'obj pylib"
  InMemorySessionService :: 'svc
  create_session :: "'svc \<Rightarrow> string \<Rightarrow> string \<Rightarrow> string \<Rightarrow> pyexc + 'svc"
  Runner :: "'obj \<Rightarrow> string \<Rightarrow> 'svc \<Rightarrow> pyexc + 'rnr"
  run :: "'rnr \<Rightarrow> string \<Rightarrow> string \<Rightarrow> content \<Rightarrow> pyexc + 'obj gen_step list"

text \<open>
  \<^verbatim>\<open>asyncio.run(coro)\<close> runs the coroutine to its end and returns its result, or raises
  what it raised.
\<close>

definition asyncio_run :: "pyexc + 'a \<Rightarrow> pyexc + 'a" where
  "asyncio_run coro = coro"

text \<open>\<^verbatim>\<open>list.insert(i, x)\<close> for an index \<open>i \<ge> 0\<close>; past the end it appends.\<close>

definition list_insert :: "nat \<Rightarrow> 'a \<Rightarrow> 'a list \<Rightarrow> 'a list" where
  "list_insert i x xs = take i xs @ x # drop i xs"

definition current_dir :: "('obj, 'svc, 'rnr) world \<Rightarrow> string" where
  "current_dir W = os_path_dirname W (os_path_abspath W (dunder_file W))"

text \<open>
  Lines 13 to 31, statement by statement. The imports are taken to succeed: what they
  bind is the \<open>world\<close>. The last line is \<^verbatim>\<open>print\<close> with two arguments: it writes the
  first, then takes the \<^verbatim>\<open>str\<close> form of the pipeline object and writes it.
  \<^verbatim>\<open>
  import sys, os
  import asyncio
  from dotenv import load_dotenv
  load_dotenv()
  from pprint import pprint
  import sys, os
  current_dir = os.path.dirname(os.path.abspath(__file__))
  sys.path.insert(0, current_dir)
  from google.adk.runners import Runner
  from google.adk.sessions import InMemorySessionService
  from google.genai.types import UserContent, Part
  from pipeline.sre_pipeline import sre_pipeline
  print("Loaded pipeline from:", sre_pipeline)
  \<close>
\<close>

definition import_module :: "string \<Rightarrow> ('obj, unit) py" where
  "import_module m = call (Ev_import m) (Inr ())"

definition module_top :: "('obj, 'svc, 'rnr) world \<Rightarrow> ('obj, unit) py" where
  "module_top W =
     bnd (import_module ''sys'') (\<lambda>_.
     bnd (import_module ''os'') (\<lambda>_.
     bnd (import_module ''asyncio'') (\<lambda>_.
     bnd (import_module ''dotenv'') (\<lambda>_.
     bnd (call Ev_load_dotenv (Inr ())) (\<lambda>_.
     bnd (import_module ''pprint'') (\<lambda>_.
     bnd (import_module ''sys'') (\<lambda>_.
     bnd (import_module ''os'') (\<lambda>_.
     bnd (call (Ev_path_insert 0 (current_dir W)) (Inr ())) (\<lambda>_.
     bnd (import_module ''google.adk.runners'') (\<lambda>_.
     bnd (import_module ''google.adk.sessions'') (\<lambda>_.
     bnd (import_module ''google.genai.types'') (\<lambda>_.
     bnd (import_module ''pipeline.sre_pipeline'') (\<lambda>_.
     case str_impl (lib W) (sre_pipeline W) of
       Inl e \<Rightarrow> ([Ev_stdout ''Loaded pipeline from: ''], Inl e)
     | Inr s \<Rightarrow> print_line (''Loaded pipeline from: '' @ s))))))))))))))"

text \<open>
  Lines 34 to 60, the body of \<^verbatim>\<open>if __name__ == "__main__":\<close>.
  \<^verbatim>\<open>
      session_service = InMemorySessionService()
      asyncio.run(session_service.create_session(
          user_id="u1", session_id="sess1", app_name="agents"))
      runner = Runner(agent=sre_pipeline, app_name="agents",
                      session_service=session_service)
      print("[DEBUG] Starting pipeline run...")
      result_gen = runner.run(user_id="u1", session_id="sess1",
                              new_message=UserContent([Part(text="run")]))
      print("[DEBUG] Pipeline run complete. Results:")
      for result in result_gen: ...
  \<close>
\<close>

definition main_block :: "('obj, 'svc, 'rnr) world \<Rightarrow> ('obj, unit) py" where
  "main_block W =
     bnd (call Ev_new_service (Inr (InMemorySessionService W))) (\<lambda>session_service.
     bnd (call (Ev_create_session ''u1'' ''sess1'' ''agents'')
            (asyncio_run (create_session W session_service ''u1'' ''sess1'' ''agents'')))
         (\<lambda>session_service.
     bnd (call (Ev_Runner (sre_pipeline W) ''agents'')
            (Runner W (sre_pipeline W) ''agents'' session_service)) (\<lambda>runner.
     bnd (print_line ''[DEBUG] Starting pipeline run...'') (\<lambda>_.
     bnd (call (Ev_run ''u1'' ''sess1'' (UserContent [Part ''run'']))
            (run W runner ''u1'' ''sess1'' (UserContent [Part ''run'']))) (\<lambda>result_gen.
     bnd (print_line ''[DEBUG] Pipeline run complete. Results:'') (\<lambda>_.
     report_loop (lib W) result_gen))))))"

text \<open>
  Lines 40 to 60 on their own: the rest of the body, from the session service as the
  creation of the session left it.
\<close>

definition after_session :: "('obj, 'svc, 'rnr) world \<Rightarrow> 'svc \<Rightarrow> ('obj, unit) py" where
  "after_session W session_service =
     bnd (call (Ev_Runner (sre_pipeline W) ''agents'')
            (Runner W (sre_pipeline W) ''agents'' session_service)) (\<lambda>runner.
     bnd (print_line ''[DEBUG] Starting pipeline run...'') (\<lambda>_.
     bnd (call (Ev_run ''u1'' ''sess1'' (UserContent [Part ''run'']))
            (run W runner ''u1'' ''sess1'' (UserContent [Part ''run'']))) (\<lambda>result_gen.
     bnd (print_line ''[DEBUG] Pipeline run complete. Results:'') (\<lambda>_.
     report_loop (lib W) result_gen))))"

definition script :: "('obj, 'svc, 'rnr) world \<Rightarrow> ('obj, unit) py" where
  "script W =
     bnd (module_top W) (\<lambda>_.
     if dunder_name W = ''__main__'' then main_block W else ret ())"

text \<open>\<^verbatim>\<open>sys.path\<close> after a run, from \<^verbatim>\<open>sys.path\<close> before it.\<close>

fun sys_path_after :: "string list \<Rightarrow> 'obj event list \<Rightarrow> string list" where
  "sys_path_after p [] = p"
| "sys_path_after p (Ev_path_insert i d # tr) = sys_path_after (list_insert i d p) tr"
| "sys_path_after p (_ # tr) = sys_path_after p tr"

section \<open>Vocabulary for the properties\<close>

text \<open>What a trace wrote to standard output, piece by piece.\<close>

fun stdout_of :: "'obj event list \<Rightarrow> string list" where
  "stdout_of [] = []"
| "stdout_of (Ev_stdout s # tr) = s # stdout_of tr"
| "stdout_of (_ # tr) = stdout_of tr"

text \<open>
  The fallback chain in the specification's words: a mapping is pretty-printed; a
  non-mapping object whose attribute dictionary can be inspected (read, and
  pretty-printed to the end) has that dictionary pretty-printed; any other object is
  printed by its string form, after whatever a failed attempt on its attribute
  dictionary had written.
\<close>

definition str_lines :: "'obj pylib \<Rightarrow> 'obj \<Rightarrow> string list" where
  "str_lines L r = (case str_impl L r of Inr s \<Rightarrow> [s] | Inl _ \<Rightarrow> [])"

definition spec_render :: "'obj pylib \<Rightarrow> 'obj \<Rightarrow> string list" where
  "spec_render L r =
     (if isinstance L r ''dict'' then fst (pprint_impl L r)
      else case getattr_dict L r of
             Inr d \<Rightarrow>
               (case snd (pprint_impl L d) of
                  None \<Rightarrow> fst (pprint_impl L d)
                | Some _ \<Rightarrow> fst (pprint_impl L d) @ str_lines L r)
           | Inl _ \<Rightarrow> str_lines L r)"

text \<open>
  An item prints cleanly when the calls made for it let the body of the loop go through:
  for a mapping, \<^verbatim>\<open>pprint\<close> returns; for another object, its attribute dictionary is
  read and pretty-printed without an exception, or the read or the pretty-printing
  raises an \<^verbatim>\<open>Exception\<close> and then \<^verbatim>\<open>str\<close> returns a text that \<^verbatim>\<open>print\<close> writes.
\<close>

definition str_printable :: "'obj pylib \<Rightarrow> 'obj \<Rightarrow> bool" where
  "str_printable L r =
     (case str_impl L r of Inr s \<Rightarrow> print_impl L s = None | Inl _ \<Rightarrow> False)"

definition prints_cleanly :: "'obj pylib \<Rightarrow> 'obj \<Rightarrow> bool" where
  "prints_cleanly L r =
     (if isinstance L r ''dict'' then snd (pprint_impl L r) = None
      else case getattr_dict L r of
             Inr d \<Rightarrow>
               (case snd (pprint_impl L d) of
                  None \<Rightarrow> True
                | Some e \<Rightarrow> isinstance_exc e ''Exception'' \<and> str_printable L r)
           | Inl e \<Rightarrow> isinstance_exc e ''Exception'' \<and> str_printable L r)"

text \<open>Kinds of events, for counting the calls of one collaborator in a trace.\<close>

fun is_create_session :: "'obj event \<Rightarrow> bool" where
  "is_create_session (Ev_create_session _ _ _) = True"
| "is_create_session _ = False"

fun is_Runner :: "'obj event \<Rightarrow> bool" where
  "is_Runner (Ev_Runner _ _) = True"
| "is_Runner _ = False"

fun is_run :: "'obj event \<Rightarrow> bool" where
  "is_run (Ev_run _ _ _) = True"
| "is_run _ = False"

text \<open>The events the result loop can perform.\<close>

fun is_report_event :: "'obj event \<Rightarrow> bool" where
  "is_report_event Ev_next = True"
| "is_report_event (Ev_pprint _) = True"
| "is_report_event (Ev_getattr_dict _) = True"
| "is_report_event (Ev_str _) = True"
| "is_report_event (Ev_stdout _) = True"
| "is_report_event _ = False"

text \<open>The events of one run of the body of the loop.\<close>

fun is_item_event :: "'obj event \<Rightarrow> bool" where
  "is_item_event (Ev_pprint _) = True"
| "is_item_event (Ev_getattr_dict _) = True"
| "is_item_event (Ev_str _) = True"
| "is_item_event (Ev_stdout _) = True"
| "is_item_event _ = False"

text \<open>
  The five operations of the specification, in its order, and the operation each call
  belongs to. A line on standard output is the effect of the \<^verbatim>\<open>print\<close> or \<^verbatim>\<open>pprint\<close>
  that wrote it and has no operation of its own. The imports belong to the setup of
  the module. Execution is, as in section 4.1 of the specification, the call of
  \<^verbatim>\<open>runner.run\<close> and the obtaining of the result items from the stream it returned;
  result reporting is what the body of the loop does with an item.
\<close>

datatype phase =
    Environment_Setup
  | Session_Creation
  | Runner_Construction
  | Execution
  | Result_Reporting

fun phase_rank :: "phase \<Rightarrow> nat" where
  "phase_rank Environment_Setup = 0"
| "phase_rank Session_Creation = 1"
| "phase_rank Runner_Construction = 2"
| "phase_rank Execution = 3"
| "phase_rank Result_Reporting = 4"

fun phase_of :: "'obj event \<Rightarrow> phase option" where
  "phase_of (Ev_import _) = Some Environment_Setup"
| "phase_of Ev_load_dotenv = Some Environment_Setup"
| "phase_of (Ev_path_insert _ _) = Some Environment_Setup"
| "phase_of (Ev_stdout _) = None"
| "phase_of Ev_new_service = Some Session_Creation"
| "phase_of (Ev_create_session _ _ _) = Some Session_Creation"
| "phase_of (Ev_Runner _ _) = Some Runner_Construction"
| "phase_of (Ev_run _ _ _) = Some Execution"
| "phase_of Ev_next = Some Execution"
| "phase_of (Ev_pprint _) = Some Result_Reporting"
| "phase_of (Ev_getattr_dict _) = Some Result_Reporting"
| "phase_of (Ev_str _) = Some Result_Reporting"

definition phase_ranks :: "'obj event list \<Rightarrow> nat list" where
  "phase_ranks tr = map phase_rank (List.map_filter phase_of tr)"

text \<open>
  Modelled from the spec: the import system is not code of this script. Its search for
  a package over the module search path is taken as the specification has it, a
  package found in an earlier entry of the path resolves before one of the same name
  in a later entry: the entries are tried from index 0, and the first that provides the
  name is the answer. \<open>provides d name\<close> says that the directory \<open>d\<close> holds a package
  of that name.
\<close>

definition path_lookup :: "(string \<Rightarrow> string \<Rightarrow> bool) \<Rightarrow> string list \<Rightarrow> string \<Rightarrow> string option" where
  "path_lookup provides path name = find (\<lambda>d. provides d name) path"

text \<open>
  Modelled from the spec: where each package of a run was resolved. The package of a
  module is the part of its dotted name before the first dot. An import statement
  searches the path as it is when the statement runs; a package that has been
  resolved is not searched for again. The result lists the packages in the order of
  their first import, each with the directory the search answered. It starts from the
  module search path \<open>p\<close> and the packages \<open>found\<close> so far.
\<close>

definition top_level :: "string \<Rightarrow> string" where
  "top_level m = takeWhile (\<lambda>c. c \<noteq> CHR ''.'') m"

fun resolutions ::
  "(string \<Rightarrow> string \<Rightarrow> bool) \<Rightarrow> string list \<Rightarrow> (string \<times> string option) list \<Rightarrow>
     'obj event list \<Rightarrow> (string \<times> string option) list" where
  "resolutions provides p found [] = found"
| "resolutions provides p found (Ev_path_insert i d # tr) =
     resolutions provides (list_insert i d p) found tr"
| "resolutions provides p found (Ev_import m # tr) =
     (if top_level m \<in> set (map fst found)
      then resolutions provides p found tr
      else resolutions provides p
             (found @ [(top_level m, path_lookup provides p (top_level m))]) tr)"
| "resolutions provides p found (_ # tr) = resolutions provides p found tr"

text \<open>The events of lines 13 to 29, before the line that prints the pipeline.\<close>

definition top_events :: "('obj, 'svc, 'rnr) world \<Rightarrow> 'obj event list" where
  "top_events W =
     [Ev_import ''sys'', Ev_import ''os'', Ev_import ''asyncio'', Ev_import ''dotenv'',
      Ev_load_dotenv, Ev_import ''pprint'', Ev_import ''sys'', Ev_import ''os'',
      Ev_path_insert 0 (current_dir W),
      Ev_import ''google.adk.runners'', Ev_import ''google.adk.sessions'',
      Ev_import ''google.genai.types'', Ev_import ''pipeline.sre_pipeline'']"

section \<open>A concrete world\<close>

text \<open>Exceptions of the standard hierarchy.\<close>

definition AttributeError :: "string \<Rightarrow> pyexc" where
  "AttributeError msg = PyExc [''AttributeError'', ''Exception'', ''BaseException'', ''object''] msg"

definition ValueError :: "string \<Rightarrow> pyexc" where
  "ValueError msg = PyExc [''ValueError'', ''Exception'', ''BaseException'', ''object''] msg"

definition RuntimeError :: "string \<Rightarrow> pyexc" where
  "RuntimeError msg = PyExc [''RuntimeError'', ''Exception'', ''BaseException'', ''object''] msg"

definition UnicodeEncodeError :: "string \<Rightarrow> pyexc" where
  "UnicodeEncodeError msg =
     PyExc [''UnicodeEncodeError'', ''UnicodeError'', ''ValueError'', ''Exception'',
            ''BaseException'', ''object''] msg"

definition KeyboardInterrupt :: pyexc where
  "KeyboardInterrupt = PyExc [''KeyboardInterrupt'', ''BaseException'', ''object''] []"

text \<open>
  A few objects a result stream can hold: the dict \<^verbatim>\<open>{1: 2}\<close>; an object with
  attributes, and its \<^verbatim>\<open>__dict__\<close> \<^verbatim>\<open>{3: 4}\<close>; the integer 7, which has no
  \<^verbatim>\<open>__dict__\<close>; a dict holding a value whose \<^verbatim>\<open>__repr__\<close> raises; an object with
  \<^verbatim>\<open>__slots__\<close> whose \<^verbatim>\<open>__str__\<close> raises; an object whose \<^verbatim>\<open>__dict__\<close> is a property
  that raises \<^verbatim>\<open>KeyboardInterrupt\<close>; an object whose attribute dictionary holds a value
  whose \<^verbatim>\<open>__repr__\<close> raises; an instance of a subclass of dict, with attributes of its
  own; an object with \<^verbatim>\<open>__slots__\<close> whose \<^verbatim>\<open>__str__\<close> returns a text that
  standard output cannot encode (written here \<open>''<unencodable>''\<close>); and the
  pipeline object.
\<close>

datatype demo_obj =
    Plain_dict
  | Event_obj
  | Event_vars
  | Number
  | Bad_repr_dict
  | Bad_str_obj
  | Interrupting_obj
  | Bad_vars_obj
  | Dict_subclass_obj
  | Unencodable_obj
  | Pipeline_obj

fun demo_mro :: "demo_obj \<Rightarrow> string list" where
  "demo_mro Plain_dict = [''dict'', ''object'']"
| "demo_mro Event_obj = [''Event'', ''object'']"
| "demo_mro Event_vars = [''dict'', ''object'']"
| "demo_mro Number = [''int'', ''object'']"
| "demo_mro Bad_repr_dict = [''dict'', ''object'']"
| "demo_mro Bad_str_obj = [''Slotted'', ''object'']"
| "demo_mro Interrupting_obj = [''Lazy'', ''object'']"
| "demo_mro Bad_vars_obj = [''Holder'', ''object'']"
| "demo_mro Dict_subclass_obj = [''MyDict'', ''dict'', ''object'']"
| "demo_mro Unencodable_obj = [''Odd'', ''object'']"
| "demo_mro Pipeline_obj = [''SequentialAgent'', ''BaseAgent'', ''object'']"

fun demo_pprint :: "demo_obj \<Rightarrow> string list \<times> pyexc option" where
  "demo_pprint Plain_dict = ([''{1: 2}''], None)"
| "demo_pprint Event_obj = ([''<Event>''], None)"
| "demo_pprint Event_vars = ([''{3: 4}''], None)"
| "demo_pprint Number = ([''7''], None)"
| "demo_pprint Bad_repr_dict = ([], Some (RuntimeError ''repr failed''))"
| "demo_pprint Bad_str_obj = ([''<Slotted>''], None)"
| "demo_pprint Interrupting_obj = ([''<Lazy>''], None)"
| "demo_pprint Bad_vars_obj = ([''<Holder>''], None)"
| "demo_pprint Dict_subclass_obj = ([''{5: 6}''], None)"
| "demo_pprint Unencodable_obj = ([''<Odd>''], None)"
| "demo_pprint Pipeline_obj = ([''<SequentialAgent>''], None)"

fun demo_getattr_dict :: "demo_obj \<Rightarrow> pyexc + demo_obj" where
  "demo_getattr_dict Event_obj = Inr Event_vars"
| "demo_getattr_dict Interrupting_obj = Inl KeyboardInterrupt"
| "demo_getattr_dict Bad_vars_obj = Inr Bad_repr_dict"
| "demo_getattr_dict Dict_subclass_obj = Inr Event_vars"
| "demo_getattr_dict Pipeline_obj = Inr Event_vars"
| "demo_getattr_dict _ = Inl (AttributeError ''__dict__'')"

fun demo_str :: "demo_obj \<Rightarrow> pyexc + string" where
  "demo_str Plain_dict = Inr ''{1: 2}''"
| "demo_str Event_obj = Inr ''<Event>''"
| "demo_str Event_vars = Inr ''{3: 4}''"
| "demo_str Number = Inr ''7''"
| "demo_str Bad_repr_dict = Inl (RuntimeError ''repr failed'')"
| "demo_str Bad_str_obj = Inl (ValueError ''str failed'')"
| "demo_str Interrupting_obj = Inr ''<Lazy>''"
| "demo_str Bad_vars_obj = Inr ''<Holder>''"
| "demo_str Dict_subclass_obj = Inr ''{5: 6}''"
| "demo_str Unencodable_obj = Inr ''<unencodable>''"
| "demo_str Pipeline_obj = Inr ''<SequentialAgent>''"

definition demo_print :: "string \<Rightarrow> pyexc option" where
  "demo_print s =
     (if s = ''<unencodable>''
      then Some (UnicodeEncodeError ''cannot encode'')
      else None)"

definition demo_lib :: "demo_obj pylib" where
  "demo_lib =
     \<lparr>type_mro = demo_mro, pprint_impl = demo_pprint,
      getattr_dict = demo_getattr_dict, str_impl = demo_str, print_impl = demo_print\<rparr>"

text \<open>
  Collaborators for it: a session store that refuses a key it already holds, a runner
  that keeps the application name and the store, and a \<^verbatim>\<open>run\<close> that hands out a given
  stream when the session exists. \<open>demo_dirname\<close> is the directory part of a path
  \<^verbatim>\<open>dir/name\<close>.
\<close>

type_synonym demo_store = "(string \<times> string \<times> string) list"

definition demo_create_session ::
  "demo_store \<Rightarrow> string \<Rightarrow> string \<Rightarrow> string \<Rightarrow> pyexc + demo_store" where
  "demo_create_session store user_id session_id app_name =
     (if (user_id, session_id, app_name) \<in> set store
      then Inl (ValueError ''session already exists'')
      else Inr ((user_id, session_id, app_name) # store))"

definition demo_Runner ::
  "demo_obj \<Rightarrow> string \<Rightarrow> demo_store \<Rightarrow> pyexc + (string \<times> demo_store)" where
  "demo_Runner agent app_name store = Inr (app_name, store)"

definition demo_run ::
  "demo_obj gen_step list \<Rightarrow> string \<times> demo_store \<Rightarrow> string \<Rightarrow> string \<Rightarrow> content \<Rightarrow>
     pyexc + demo_obj gen_step list" where
  "demo_run steps runner user_id session_id new_message =
     (if (user_id, session_id, fst runner) \<in> set (snd runner)
      then Inr steps
      else Inl (ValueError ''session not found''))"

definition demo_dirname :: "string \<Rightarrow> string" where
  "demo_dirname p = rev (tl (dropWhile (\<lambda>c. c \<noteq> CHR ''/'') (rev p)))"

text \<open>
  A layout of packages: every directory, the one of the script and the one of the
  installed packages, holds a package \<^verbatim>\<open>pipeline\<close> and a package \<^verbatim>\<open>dotenv\<close>.
\<close>

definition demo_provides :: "string \<Rightarrow> string \<Rightarrow> bool" where
  "demo_provides d name = (name = ''pipeline'' \<or> name = ''dotenv'')"

definition demo_world ::
  "demo_store \<Rightarrow> demo_obj gen_step list \<Rightarrow> (demo_obj, demo_store, string \<times> demo_store) world" where
  "demo_world store steps =
     \<lparr>dunder_file = ''run.py'',
      dunder_name = ''__main__'',
      os_path_abspath = (\<lambda>p. ''/srv/agents/'' @ p),
      os_path_dirname = demo_dirname,
      sre_pipeline = Pipeline_obj,
      lib = demo_lib,
      InMemorySessionService = store,
      create_session = demo_create_session,
      Runner = demo_Runner,
      run = demo_run steps\<rparr>"

section \<open>Sequencing and the loop, step by step\<close>

lemma bnd_Inr: "bnd (tr, Inr a) f = (tr @ fst (f a), snd (f a))"
  by (simp add: bnd_def split: prod.splits)

lemma bnd_eq:
  "bnd m f =
     (case snd m of
        Inl e \<Rightarrow> (fst m, Inl e)
      | Inr a \<Rightarrow> (fst m @ fst (f a), snd (f a)))"
  by (cases m) (simp add: bnd_def split: sum.splits prod.splits)

lemma report_loop_Yield:
  "report_loop L (Yield r # rest) =
     (case snd (report_item L r) of
        Inl e \<Rightarrow> (Ev_next # fst (report_item L r), Inl e)
      | Inr _ \<Rightarrow>
          (Ev_next # fst (report_item L r) @ fst (report_loop L rest),
           snd (report_loop L rest)))"
  by (cases "report_item L r"; cases "report_loop L rest")
     (auto simp: call_def bnd_def split: sum.splits)

declare report_loop.simps(3) [simp del]

lemma stdout_of_append: "stdout_of (xs @ ys) = stdout_of xs @ stdout_of ys"
  by (induction xs rule: stdout_of.induct) simp_all

lemma stdout_of_map: "stdout_of (map Ev_stdout out) = out"
  by (induction out) simp_all

lemma report_item_render:
  assumes "prints_cleanly L r"
  shows "snd (report_item L r) = Inr ()"
    and "stdout_of (fst (report_item L r)) = spec_render L r"
  using assms
  by (auto simp: prints_cleanly_def str_printable_def spec_render_def str_lines_def
      report_item_def pprint_def dunder_dict_def str_def print_text_def
      try_except_Exception_def bnd_def call_def stdout_of_map stdout_of_append
      split: if_splits sum.splits prod.splits option.splits)

lemma report_loop_raise:
  "snd (report_loop L pre) = Inr () \<Longrightarrow>
   report_loop L (pre @ GenRaise e # post) = (fst (report_loop L pre), Inl e)"
proof (induction L pre rule: report_loop.induct)
  case (1 L)
  show ?case by (simp add: call_def)
next
  case (2 L e' rest)
  then show ?case by (simp add: call_def)
next
  case (3 L r rest)
  then show ?case
    by (simp add: report_loop_Yield split: sum.splits)
qed

lemmas demo_simps =
  demo_lib_def isinstance_def isinstance_exc_def report_item_def pprint_def
  dunder_dict_def str_def print_line_def print_text_def demo_print_def
  try_except_Exception_def bnd_def call_def
  AttributeError_def ValueError_def RuntimeError_def UnicodeEncodeError_def
  KeyboardInterrupt_def report_loop_Yield spec_render_def str_lines_def
  prints_cleanly_def str_printable_def

section \<open>The result loop\<close>

text \<open>
  Claim C1, amended. For every finite sequence of result items each of which prints
  cleanly - the \<^verbatim>\<open>pprint\<close> of a mapping returns; the attribute dictionary of another
  object is read and pretty-printed without an exception, or that attempt raises an
  \<^verbatim>\<open>Exception\<close> and \<^verbatim>\<open>str\<close> returns a text that \<^verbatim>\<open>print\<close> writes - the loop ends
  normally and what it writes is, item after item in the order of the stream, what the
  fallback chain of the specification gives: the mapping pretty-printed, else the
  attribute dictionary pretty-printed, else the string form. The conditions are on
  what the collaborators do, and that the body of the loop goes through is part of the
  conclusion.
\<close>

theorem report_loop_prints_clean_items:
  "\<forall>r\<in>set items. prints_cleanly L r \<Longrightarrow>
     snd (report_loop L (map Yield items)) = Inr () \<and>
     stdout_of (fst (report_loop L (map Yield items))) = concat (map (spec_render L) items)"
proof (induction items)
  case Nil
  show ?case by (simp add: call_def)
next
  case (Cons r items)
  then show ?case
    by (simp add: report_loop_Yield report_item_render stdout_of_append)
qed

theorem report_loop_prints_clean_items_witness:
  "prints_cleanly demo_lib Plain_dict \<and>
   prints_cleanly demo_lib Event_obj \<and>
   prints_cleanly demo_lib Number \<and>
   prints_cleanly demo_lib Bad_vars_obj \<and>
   snd (report_loop demo_lib (map Yield [Plain_dict, Event_obj, Number, Bad_vars_obj])) = Inr () \<and>
   stdout_of (fst (report_loop demo_lib (map Yield [Plain_dict, Event_obj, Number, Bad_vars_obj]))) =
     [''{1: 2}'', ''{3: 4}'', ''7'', ''<Holder>'']"
proof -
  have h: "\<forall>r\<in>set [Plain_dict, Event_obj, Number, Bad_vars_obj]. prints_cleanly demo_lib r"
    by (simp add: demo_simps)
  have r: "concat (map (spec_render demo_lib) [Plain_dict, Event_obj, Number, Bad_vars_obj]) =
      [''{1: 2}'', ''{3: 4}'', ''7'', ''<Holder>'']"
    by (simp add: demo_simps)
  show ?thesis
    using h r report_loop_prints_clean_items [OF h] by simp
qed

text \<open>
  As the claim is written, for every sequence, it fails: a mapping whose \<^verbatim>\<open>pprint\<close>
  raises ends the loop, and the item after it is never printed.
\<close>

theorem report_loop_stops_at_failing_mapping:
  "report_loop demo_lib (map Yield [Bad_repr_dict, Number]) =
     ([Ev_next, Ev_pprint Bad_repr_dict], Inl (RuntimeError ''repr failed'')) \<and>
   stdout_of (fst (report_loop demo_lib (map Yield [Bad_repr_dict, Number]))) \<noteq>
     concat (map (spec_render demo_lib) [Bad_repr_dict, Number])"
  by (simp add: demo_simps)

text \<open>
  Claim C2, amended. For a result item that is not a mapping, a failure of class
  \<^verbatim>\<open>Exception\<close> while its attribute dictionary is read or pretty-printed does not
  end the iteration: the handler takes the string form of the item and, when \<^verbatim>\<open>str\<close>
  returns a text and \<^verbatim>\<open>print\<close> writes it, the loop goes on with the remaining items.
\<close>

theorem attribute_dict_failure_falls_back:
  assumes "\<not> isinstance L r ''dict''"
    and "bnd (dunder_dict L r) (pprint L) = (tr, Inl e)"
    and "isinstance_exc e ''Exception''"
    and "str_impl L r = Inr s"
    and "print_impl L s = None"
  shows "report_loop L (Yield r # rest) =
     (Ev_next # tr @ [Ev_str r, Ev_stdout s] @ fst (report_loop L rest),
      snd (report_loop L rest))"
proof -
  have "report_item L r = (tr @ [Ev_str r, Ev_stdout s], Inr ())"
    using assms
    by (simp add: report_item_def try_except_Exception_def str_def print_text_def
        call_def bnd_Inr)
  then show ?thesis
    by (simp add: report_loop_Yield)
qed

theorem attribute_dict_failure_falls_back_witness:
  "\<not> isinstance demo_lib Bad_vars_obj ''dict'' \<and>
   bnd (dunder_dict demo_lib Bad_vars_obj) (pprint demo_lib) =
     ([Ev_getattr_dict Bad_vars_obj, Ev_pprint Bad_repr_dict], Inl (RuntimeError ''repr failed'')) \<and>
   isinstance_exc (RuntimeError ''repr failed'') ''Exception'' \<and>
   str_impl demo_lib Bad_vars_obj = Inr ''<Holder>'' \<and>
   print_impl demo_lib ''<Holder>'' = None \<and>
   report_loop demo_lib [Yield Bad_vars_obj, Yield Number] =
     ([Ev_next, Ev_getattr_dict Bad_vars_obj, Ev_pprint Bad_repr_dict,
       Ev_str Bad_vars_obj, Ev_stdout ''<Holder>'',
       Ev_next, Ev_getattr_dict Number, Ev_str Number, Ev_stdout ''7'', Ev_next],
      Inr ())"
proof -
  have a: "\<not> isinstance demo_lib Bad_vars_obj ''dict''"
    by (simp add: demo_simps)
  have b: "bnd (dunder_dict demo_lib Bad_vars_obj) (pprint demo_lib) =
     ([Ev_getattr_dict Bad_vars_obj, Ev_pprint Bad_repr_dict], Inl (RuntimeError ''repr failed''))"
    by (simp add: demo_simps)
  have c: "isinstance_exc (RuntimeError ''repr failed'') ''Exception''"
    by (simp add: demo_simps)
  have d: "str_impl demo_lib Bad_vars_obj = Inr ''<Holder>''"
    by (simp add: demo_simps)
  have p: "print_impl demo_lib ''<Holder>'' = None"
    by (simp add: demo_simps)
  have rest: "report_loop demo_lib [Yield Number] =
     ([Ev_next, Ev_getattr_dict Number, Ev_str Number, Ev_stdout ''7'', Ev_next], Inr ())"
    by (simp add: demo_simps)
  show ?thesis
    using a b c d p rest
      attribute_dict_failure_falls_back [OF a b c d p, of "[Yield Number]"]
    by simp
qed

text \<open>
  As the claim is written, for every failure while an item is printed, it fails: the
  string fallback is outside the guard, so an item without attribute dictionary whose
  \<^verbatim>\<open>__str__\<close> raises ends the loop, and the mapping after it is never printed.
\<close>

theorem report_loop_aborts_on_str_failure:
  "report_loop demo_lib [Yield Bad_str_obj, Yield Plain_dict] =
     ([Ev_next, Ev_getattr_dict Bad_str_obj, Ev_str Bad_str_obj],
      Inl (ValueError ''str failed''))"
  by (simp add: demo_simps)

text \<open>
  The same happens when \<^verbatim>\<open>str\<close> returns a text that \<^verbatim>\<open>print\<close> cannot write: the
  \<^verbatim>\<open>print\<close> of line 60 is in the handler, outside the guard.
\<close>

lemma report_loop_aborts_on_print_failure:
  "report_loop demo_lib [Yield Unencodable_obj, Yield Plain_dict] =
     ([Ev_next, Ev_getattr_dict Unencodable_obj, Ev_str Unencodable_obj],
      Inl (UnicodeEncodeError ''cannot encode''))"
  by (simp add: demo_simps)

text \<open>
  The only reads of \<^verbatim>\<open>__dict__\<close> and the only calls of \<^verbatim>\<open>str\<close> a step of the loop
  makes are on the item itself, and only when the item is not a mapping.
\<close>

lemma report_item_consults:
  assumes "Ev_getattr_dict y \<in> set (fst (report_item L x)) \<or> Ev_str y \<in> set (fst (report_item L x))"
  shows "y = x \<and> \<not> isinstance L x ''dict''"
proof (cases "isinstance L x ''dict''")
  case True
  then have "fst (report_item L x) = Ev_pprint x # map Ev_stdout (fst (pprint_impl L x))"
    by (simp add: report_item_def pprint_def split: prod.splits)
  with assms show ?thesis by auto
next
  case False
  have "set (fst (report_item L x)) \<subseteq>
      {Ev_getattr_dict x, Ev_str x} \<union> range Ev_pprint \<union> range Ev_stdout"
    using False
    by (auto simp: report_item_def try_except_Exception_def dunder_dict_def str_def
        print_text_def pprint_def call_def bnd_def
        split: sum.splits prod.splits option.splits if_splits)
  with assms False show ?thesis by auto
qed

lemma report_loop_consults:
  "Ev_getattr_dict y \<in> set (fst (report_loop L steps)) \<or> Ev_str y \<in> set (fst (report_loop L steps))
   \<Longrightarrow> \<not> isinstance L y ''dict''"
proof (induction L steps rule: report_loop.induct)
  case (1 L)
  then show ?case by (simp add: call_def)
next
  case (2 L e rest)
  then show ?case by (simp add: call_def)
next
  case (3 L r rest)
  show ?case
  proof (cases "Ev_getattr_dict y \<in> set (fst (report_item L r)) \<or> Ev_str y \<in> set (fst (report_item L r))")
    case True
    then show ?thesis using report_item_consults [of y L r] by simp
  next
    case False
    with "3.prems" have "Ev_getattr_dict y \<in> set (fst (report_loop L rest)) \<or>
        Ev_str y \<in> set (fst (report_loop L rest))"
      by (auto simp: report_loop_Yield split: sum.splits)
    then show ?thesis by (rule "3.IH")
  qed
qed

text \<open>
  Claim C9. For a result item that is an instance of dict, of dict itself or of a
  subclass, a step of the loop is the call of \<^verbatim>\<open>pprint\<close> on the item and nothing else,
  and whatever the stream, the loop never reads the \<^verbatim>\<open>__dict__\<close> of such an item and
  never calls \<^verbatim>\<open>str\<close> on it.
\<close>

theorem dict_instance_takes_mapping_branch:
  assumes "isinstance L r ''dict''"
  shows "report_item L r = pprint L r \<and>
     Ev_getattr_dict r \<notin> set (fst (report_loop L steps)) \<and>
     Ev_str r \<notin> set (fst (report_loop L steps))"
proof -
  have "report_item L r = pprint L r"
    using assms by (simp add: report_item_def)
  moreover have "Ev_getattr_dict r \<notin> set (fst (report_loop L steps))"
    using assms report_loop_consults [of r L steps] by blast
  moreover have "Ev_str r \<notin> set (fst (report_loop L steps))"
    using assms report_loop_consults [of r L steps] by blast
  ultimately show ?thesis by simp
qed

theorem dict_instance_takes_mapping_branch_witness:
  "isinstance demo_lib Dict_subclass_obj ''dict'' \<and>
   getattr_dict demo_lib Dict_subclass_obj = Inr Event_vars \<and>
   report_item demo_lib Dict_subclass_obj =
     ([Ev_pprint Dict_subclass_obj, Ev_stdout ''{5: 6}''], Inr ()) \<and>
   Ev_getattr_dict Dict_subclass_obj \<notin>
     set (fst (report_loop demo_lib [Yield Event_obj, Yield Dict_subclass_obj, Yield Number])) \<and>
   Ev_str Dict_subclass_obj \<notin>
     set (fst (report_loop demo_lib [Yield Event_obj, Yield Dict_subclass_obj, Yield Number]))"
proof -
  have h: "isinstance demo_lib Dict_subclass_obj ''dict''"
    by (simp add: demo_simps)
  have g: "getattr_dict demo_lib Dict_subclass_obj = Inr Event_vars"
    by (simp add: demo_simps)
  have p: "pprint demo_lib Dict_subclass_obj =
      ([Ev_pprint Dict_subclass_obj, Ev_stdout ''{5: 6}''], Inr ())"
    by (simp add: demo_simps)
  show ?thesis
    using h g p
      dict_instance_takes_mapping_branch
        [OF h, of "[Yield Event_obj, Yield Dict_subclass_obj, Yield Number]"]
    by simp
qed

text \<open>
  Claim C10. The guard catches instances of \<^verbatim>\<open>Exception\<close> only. When the read or the
  pretty-printing of the attribute dictionary of a non-mapping item raises an exception
  that is not an instance of \<^verbatim>\<open>Exception\<close>, there is no string fallback (\<^verbatim>\<open>str\<close> is
  not called on the item): the step and the loop end with that exception, and nothing
  of the rest of the stream is reached.
\<close>

theorem non_Exception_escapes_fallback:
  assumes "\<not> isinstance L r ''dict''"
    and "bnd (dunder_dict L r) (pprint L) = (tr, Inl e)"
    and "\<not> isinstance_exc e ''Exception''"
  shows "report_item L r = (tr, Inl e) \<and>
     report_loop L (Yield r # rest) = (Ev_next # tr, Inl e) \<and>
     Ev_str r \<notin> set tr"
proof -
  have item: "report_item L r = (tr, Inl e)"
    using assms by (simp add: report_item_def try_except_Exception_def)
  then have loop: "report_loop L (Yield r # rest) = (Ev_next # tr, Inl e)"
    by (simp add: report_loop_Yield)
  have "Ev_str r \<notin> set tr"
    using assms(2)
    by (auto simp: dunder_dict_def pprint_def call_def bnd_def
        split: sum.splits prod.splits option.splits)
  with item loop show ?thesis by simp
qed

theorem non_Exception_escapes_fallback_witness:
  "\<not> isinstance demo_lib Interrupting_obj ''dict'' \<and>
   bnd (dunder_dict demo_lib Interrupting_obj) (pprint demo_lib) =
     ([Ev_getattr_dict Interrupting_obj], Inl KeyboardInterrupt) \<and>
   \<not> isinstance_exc KeyboardInterrupt ''Exception'' \<and>
   report_item demo_lib Interrupting_obj =
     ([Ev_getattr_dict Interrupting_obj], Inl KeyboardInterrupt) \<and>
   report_loop demo_lib [Yield Interrupting_obj, Yield Number] =
     ([Ev_next, Ev_getattr_dict Interrupting_obj], Inl KeyboardInterrupt) \<and>
   Ev_str Interrupting_obj \<notin> set [Ev_getattr_dict Interrupting_obj]"
proof -
  have a: "\<not> isinstance demo_lib Interrupting_obj ''dict''"
    by (simp add: demo_simps)
  have b: "bnd (dunder_dict demo_lib Interrupting_obj) (pprint demo_lib) =
     ([Ev_getattr_dict Interrupting_obj], Inl KeyboardInterrupt)"
    by (simp add: demo_simps)
  have c: "\<not> isinstance_exc KeyboardInterrupt ''Exception''"
    by (simp add: demo_simps)
  show ?thesis
    using a b c non_Exception_escapes_fallback [OF a b c, of "[Yield Number]"]
    by simp
qed

section \<open>The script, step by step\<close>

lemma module_top_cases:
  "module_top W =
     (case str_impl (lib W) (sre_pipeline W) of
        Inl e \<Rightarrow> (top_events W @ [Ev_stdout ''Loaded pipeline from: ''], Inl e)
      | Inr s \<Rightarrow> (top_events W @ [Ev_stdout (''Loaded pipeline from: '' @ s)], Inr ()))"
  by (simp add: module_top_def top_events_def import_module_def print_line_def call_def
      bnd_def split: sum.splits)

lemma main_block_cases:
  "main_block W =
     (case create_session W (InMemorySessionService W) ''u1'' ''sess1'' ''agents'' of
        Inl e \<Rightarrow> ([Ev_new_service, Ev_create_session ''u1'' ''sess1'' ''agents''], Inl e)
      | Inr svc \<Rightarrow>
         (case Runner W (sre_pipeline W) ''agents'' svc of
            Inl e \<Rightarrow>
              ([Ev_new_service, Ev_create_session ''u1'' ''sess1'' ''agents'',
                Ev_Runner (sre_pipeline W) ''agents''], Inl e)
          | Inr rn \<Rightarrow>
             (case run W rn ''u1'' ''sess1'' (UserContent [Part ''run'']) of
                Inl e \<Rightarrow>
                  ([Ev_new_service, Ev_create_session ''u1'' ''sess1'' ''agents'',
                    Ev_Runner (sre_pipeline W) ''agents'',
                    Ev_stdout ''[DEBUG] Starting pipeline run...'',
                    Ev_run ''u1'' ''sess1'' (UserContent [Part ''run''])], Inl e)
              | Inr g \<Rightarrow>
                  ([Ev_new_service, Ev_create_session ''u1'' ''sess1'' ''agents'',
                    Ev_Runner (sre_pipeline W) ''agents'',
                    Ev_stdout ''[DEBUG] Starting pipeline run...'',
                    Ev_run ''u1'' ''sess1'' (UserContent [Part ''run'']),
                    Ev_stdout ''[DEBUG] Pipeline run complete. Results:'']
                   @ fst (report_loop (lib W) g),
                   snd (report_loop (lib W) g)))))"
  by (simp add: main_block_def asyncio_run_def print_line_def call_def bnd_def
      split: sum.splits prod.splits)

lemma main_block_after_session:
  "main_block W =
     (case create_session W (InMemorySessionService W) ''u1'' ''sess1'' ''agents'' of
        Inl e \<Rightarrow> ([Ev_new_service, Ev_create_session ''u1'' ''sess1'' ''agents''], Inl e)
      | Inr svc \<Rightarrow>
          ([Ev_new_service, Ev_create_session ''u1'' ''sess1'' ''agents'']
           @ fst (after_session W svc),
           snd (after_session W svc)))"
  by (simp add: main_block_def after_session_def asyncio_run_def call_def bnd_def
      split: sum.splits prod.splits)

lemma after_session_cases:
  "after_session W svc =
     (case Runner W (sre_pipeline W) ''agents'' svc of
        Inl e \<Rightarrow> ([Ev_Runner (sre_pipeline W) ''agents''], Inl e)
      | Inr rn \<Rightarrow>
         (case run W rn ''u1'' ''sess1'' (UserContent [Part ''run'']) of
            Inl e \<Rightarrow>
              ([Ev_Runner (sre_pipeline W) ''agents'',
                Ev_stdout ''[DEBUG] Starting pipeline run...'',
                Ev_run ''u1'' ''sess1'' (UserContent [Part ''run''])], Inl e)
          | Inr g \<Rightarrow>
              ([Ev_Runner (sre_pipeline W) ''agents'',
                Ev_stdout ''[DEBUG] Starting pipeline run...'',
                Ev_run ''u1'' ''sess1'' (UserContent [Part ''run'']),
                Ev_stdout ''[DEBUG] Pipeline run complete. Results:'']
               @ fst (report_loop (lib W) g),
               snd (report_loop (lib W) g))))"
  by (simp add: after_session_def print_line_def call_def bnd_def
      split: sum.splits prod.splits)

lemma script_cases:
  "script W =
     (case str_impl (lib W) (sre_pipeline W) of
        Inl e \<Rightarrow> (top_events W @ [Ev_stdout ''Loaded pipeline from: ''], Inl e)
      | Inr s \<Rightarrow>
          if dunder_name W = ''__main__''
          then (top_events W @ [Ev_stdout (''Loaded pipeline from: '' @ s)]
                @ fst (main_block W),
                snd (main_block W))
          else (top_events W @ [Ev_stdout (''Loaded pipeline from: '' @ s)], Inr ()))"
  by (simp add: script_def module_top_cases bnd_eq ret_def split: sum.splits)

lemma filter_top_events:
  "filter is_create_session (top_events W) = []"
  "filter is_Runner (top_events W) = []"
  "filter is_run (top_events W) = []"
  "takeWhile (\<lambda>ev. \<not> is_create_session ev) (top_events W @ tr) =
     top_events W @ takeWhile (\<lambda>ev. \<not> is_create_session ev) tr"
  "stdout_of (top_events W) = []"
  by (simp_all add: top_events_def)

lemma report_item_events: "ev \<in> set (fst (report_item L r)) \<Longrightarrow> is_report_event ev"
  by (auto simp: report_item_def try_except_Exception_def dunder_dict_def str_def
      print_text_def pprint_def call_def bnd_def
      split: sum.splits prod.splits option.splits if_splits)

lemma report_loop_events: "ev \<in> set (fst (report_loop L steps)) \<Longrightarrow> is_report_event ev"
proof (induction L steps rule: report_loop.induct)
  case (1 L)
  then show ?case by (simp add: call_def)
next
  case (2 L e rest)
  then show ?case by (simp add: call_def)
next
  case (3 L r rest)
  then show ?case
    by (auto simp: report_loop_Yield report_item_events split: sum.splits)
qed

lemma report_event_kinds:
  "is_report_event ev \<Longrightarrow> \<not> is_create_session ev \<and> \<not> is_Runner ev \<and> \<not> is_run ev"
  by (cases ev) simp_all

lemma report_loop_no_calls:
  "filter is_create_session (fst (report_loop L steps)) = []"
  "filter is_Runner (fst (report_loop L steps)) = []"
  "filter is_run (fst (report_loop L steps)) = []"
  using report_loop_events [of _ L steps] report_event_kinds
  by (auto simp: filter_empty_conv)

lemmas demo_world_simps =
  demo_world_def demo_create_session_def demo_Runner_def demo_run_def demo_dirname_def
  current_dir_def UserContent_def

section \<open>The result stream raising\<close>

text \<open>
  Claim C3. If the result stream raises partway through the iteration, the loop does
  not catch it: the loop ends with that very exception, and its trace is the trace of
  the items before the raising point, so nothing after it is printed. The hypothesis
  says that the iteration reaches the raising point: the steps before it are handled
  without an exception. In a run of the script that gets to the loop, the script ends
  with that exception, and its output is the three lines it prints itself and the
  output for the items before the raising point.
\<close>

theorem report_loop_stream_raise_propagates:
  assumes "snd (report_loop L pre) = Inr ()"
  shows "report_loop L (pre @ GenRaise e # post) = (fst (report_loop L pre), Inl e) \<and>
     (lib W = L \<and> dunder_name W = ''__main__'' \<and>
      str_impl L (sre_pipeline W) = Inr s \<and>
      create_session W (InMemorySessionService W) ''u1'' ''sess1'' ''agents'' = Inr svc \<and>
      Runner W (sre_pipeline W) ''agents'' svc = Inr rn \<and>
      run W rn ''u1'' ''sess1'' (UserContent [Part ''run'']) = Inr (pre @ GenRaise e # post) \<longrightarrow>
        snd (script W) = Inl e \<and>
        stdout_of (fst (script W)) =
          [''Loaded pipeline from: '' @ s, ''[DEBUG] Starting pipeline run...'',
           ''[DEBUG] Pipeline run complete. Results:'']
          @ stdout_of (fst (report_loop L pre)))"
proof -
  have loop: "report_loop L (pre @ GenRaise e # post) = (fst (report_loop L pre), Inl e)"
    using assms by (rule report_loop_raise)
  then show ?thesis
    by (auto simp: script_cases main_block_cases stdout_of_append filter_top_events)
qed

theorem report_loop_stream_raise_propagates_witness:
  "snd (report_loop demo_lib [Yield Plain_dict]) = Inr () \<and>
   report_loop demo_lib ([Yield Plain_dict] @ GenRaise (RuntimeError ''pipeline failed'') # [Yield Number]) =
     ([Ev_next, Ev_pprint Plain_dict, Ev_stdout ''{1: 2}'', Ev_next],
      Inl (RuntimeError ''pipeline failed'')) \<and>
   run (demo_world [] ([Yield Plain_dict] @ GenRaise (RuntimeError ''pipeline failed'') # [Yield Number]))
     (''agents'', [(''u1'', ''sess1'', ''agents'')]) ''u1'' ''sess1'' (UserContent [Part ''run'']) =
     Inr ([Yield Plain_dict] @ GenRaise (RuntimeError ''pipeline failed'') # [Yield Number]) \<and>
   snd (script (demo_world [] ([Yield Plain_dict] @ GenRaise (RuntimeError ''pipeline failed'') # [Yield Number]))) =
     Inl (RuntimeError ''pipeline failed'') \<and>
   stdout_of (fst (script (demo_world [] ([Yield Plain_dict] @ GenRaise (RuntimeError ''pipeline failed'') # [Yield Number])))) =
     [''Loaded pipeline from: <SequentialAgent>'', ''[DEBUG] Starting pipeline run...'',
      ''[DEBUG] Pipeline run complete. Results:'', ''{1: 2}'']"
proof -
  let ?g = "[Yield Plain_dict] @ GenRaise (RuntimeError ''pipeline failed'') # [Yield Number]"
  let ?W = "demo_world [] ?g"
  have h: "snd (report_loop demo_lib [Yield Plain_dict]) = Inr ()"
    by (simp add: demo_simps)
  have t: "fst (report_loop demo_lib [Yield Plain_dict]) =
      [Ev_next, Ev_pprint Plain_dict, Ev_stdout ''{1: 2}'', Ev_next]"
    by (simp add: demo_simps)
  have w: "lib ?W = demo_lib" "dunder_name ?W = ''__main__''"
    "str_impl demo_lib (sre_pipeline ?W) = Inr ''<SequentialAgent>''"
    "create_session ?W (InMemorySessionService ?W) ''u1'' ''sess1'' ''agents'' =
       Inr [(''u1'', ''sess1'', ''agents'')]"
    "Runner ?W (sre_pipeline ?W) ''agents'' [(''u1'', ''sess1'', ''agents'')] =
       Inr (''agents'', [(''u1'', ''sess1'', ''agents'')])"
    "run ?W (''agents'', [(''u1'', ''sess1'', ''agents'')]) ''u1'' ''sess1''
       (UserContent [Part ''run'']) = Inr ?g"
    by (simp_all add: demo_world_simps demo_lib_def)
  show ?thesis
    using h t w report_loop_stream_raise_propagates
      [OF h, of "RuntimeError ''pipeline failed''" "[Yield Number]" ?W
        "''<SequentialAgent>''" "[(''u1'', ''sess1'', ''agents'')]"
        "(''agents'', [(''u1'', ''sess1'', ''agents'')])"]
    by simp
qed

section \<open>Session creation and the call of the runner\<close>

text \<open>
  Claim C4. If the call of \<^verbatim>\<open>create_session\<close> raises, the body of the script ends
  with that exception right after the call: the runner is not constructed and
  \<^verbatim>\<open>run\<close> is not called, in the body and in the whole script. When the script is run
  as the main module and its first lines have gone through, the whole script ends with
  that exception.
\<close>

theorem create_session_failure_stops_bootstrap:
  assumes "create_session W (InMemorySessionService W) ''u1'' ''sess1'' ''agents'' = Inl e"
  shows "main_block W =
       ([Ev_new_service, Ev_create_session ''u1'' ''sess1'' ''agents''], Inl e) \<and>
     filter is_Runner (fst (script W)) = [] \<and>
     filter is_run (fst (script W)) = [] \<and>
     (dunder_name W = ''__main__'' \<and> str_impl (lib W) (sre_pipeline W) = Inr s \<longrightarrow>
        script W =
          ([Ev_import ''sys'', Ev_import ''os'', Ev_import ''asyncio'', Ev_import ''dotenv'',
            Ev_load_dotenv, Ev_import ''pprint'', Ev_import ''sys'', Ev_import ''os'',
            Ev_path_insert 0 (current_dir W),
            Ev_import ''google.adk.runners'', Ev_import ''google.adk.sessions'',
            Ev_import ''google.genai.types'', Ev_import ''pipeline.sre_pipeline'',
            Ev_stdout (''Loaded pipeline from: '' @ s),
            Ev_new_service, Ev_create_session ''u1'' ''sess1'' ''agents''], Inl e))"
proof -
  have m: "main_block W =
       ([Ev_new_service, Ev_create_session ''u1'' ''sess1'' ''agents''], Inl e)"
    using assms by (simp add: main_block_cases)
  have "filter is_Runner (fst (script W)) = []"
    by (simp add: script_cases m filter_top_events split: sum.splits)
  moreover have "filter is_run (fst (script W)) = []"
    by (simp add: script_cases m filter_top_events split: sum.splits)
  moreover have "dunder_name W = ''__main__'' \<and> str_impl (lib W) (sre_pipeline W) = Inr s \<longrightarrow>
        script W =
          ([Ev_import ''sys'', Ev_import ''os'', Ev_import ''asyncio'', Ev_import ''dotenv'',
            Ev_load_dotenv, Ev_import ''pprint'', Ev_import ''sys'', Ev_import ''os'',
            Ev_path_insert 0 (current_dir W),
            Ev_import ''google.adk.runners'', Ev_import ''google.adk.sessions'',
            Ev_import ''google.genai.types'', Ev_import ''pipeline.sre_pipeline'',
            Ev_stdout (''Loaded pipeline from: '' @ s),
            Ev_new_service, Ev_create_session ''u1'' ''sess1'' ''agents''], Inl e)"
    by (simp add: script_cases m top_events_def)
  ultimately show ?thesis using m by simp
qed

theorem create_session_failure_stops_bootstrap_witness:
  "create_session (demo_world [(''u1'', ''sess1'', ''agents'')] [Yield Plain_dict])
     (InMemorySessionService (demo_world [(''u1'', ''sess1'', ''agents'')] [Yield Plain_dict]))
     ''u1'' ''sess1'' ''agents'' = Inl (ValueError ''session already exists'') \<and>
   dunder_name (demo_world [(''u1'', ''sess1'', ''agents'')] [Yield Plain_dict]) = ''__main__'' \<and>
   script (demo_world [(''u1'', ''sess1'', ''agents'')] [Yield Plain_dict]) =
     ([Ev_import ''sys'', Ev_import ''os'', Ev_import ''asyncio'', Ev_import ''dotenv'',
       Ev_load_dotenv, Ev_import ''pprint'', Ev_import ''sys'', Ev_import ''os'',
       Ev_path_insert 0 ''/srv/agents'',
       Ev_import ''google.adk.runners'', Ev_import ''google.adk.sessions'',
       Ev_import ''google.genai.types'', Ev_import ''pipeline.sre_pipeline'',
       Ev_stdout ''Loaded pipeline from: <SequentialAgent>'',
       Ev_new_service, Ev_create_session ''u1'' ''sess1'' ''agents''],
      Inl (ValueError ''session already exists''))"
proof -
  let ?W = "demo_world [(''u1'', ''sess1'', ''agents'')] [Yield Plain_dict]"
  have h: "create_session ?W (InMemorySessionService ?W) ''u1'' ''sess1'' ''agents'' =
      Inl (ValueError ''session already exists'')"
    by (simp add: demo_world_simps)
  have n: "dunder_name ?W = ''__main__''"
    by (simp add: demo_world_simps)
  have b: "str_impl (lib ?W) (sre_pipeline ?W) = Inr ''<SequentialAgent>''"
    by (simp add: demo_world_simps demo_lib_def)
  have d: "current_dir ?W = ''/srv/agents''"
    by (simp add: demo_world_simps)
  show ?thesis
    using h n b d create_session_failure_stops_bootstrap [OF h, of "''<SequentialAgent>''"]
    by simp
qed

text \<open>
  Claim C5. The body of the script applies \<^verbatim>\<open>create_session\<close> once, to the fresh
  session service with \<^verbatim>\<open>user_id="u1"\<close>, \<^verbatim>\<open>session_id="sess1"\<close>, \<^verbatim>\<open>app_name="agents"\<close>:
  what the body does is decided by the outcome of that one application, and when it
  returns, the rest of the body (the construction of the runner, the call of \<^verbatim>\<open>run\<close>,
  the loop) starts from the service it returned, makes no use of \<^verbatim>\<open>create_session\<close>
  and records no further call of it. So the call is recorded exactly once, with these
  identifiers, and neither the construction nor the call of the runner comes before
  it. The same holds of the whole script when it is run as the main module and its
  first lines have gone through.
\<close>

theorem create_session_called_once:
  "main_block W =
     (case create_session W (InMemorySessionService W) ''u1'' ''sess1'' ''agents'' of
        Inl e \<Rightarrow> ([Ev_new_service, Ev_create_session ''u1'' ''sess1'' ''agents''], Inl e)
      | Inr svc \<Rightarrow>
          ([Ev_new_service, Ev_create_session ''u1'' ''sess1'' ''agents'']
           @ fst (after_session W svc),
           snd (after_session W svc))) \<and>
   after_session (W\<lparr>create_session := other\<rparr>) svc' = after_session W svc' \<and>
   filter is_create_session (fst (after_session W svc')) = [] \<and>
   filter is_create_session (fst (main_block W)) =
     [Ev_create_session ''u1'' ''sess1'' ''agents''] \<and>
   filter is_Runner (takeWhile (\<lambda>ev. \<not> is_create_session ev) (fst (main_block W))) = [] \<and>
   filter is_run (takeWhile (\<lambda>ev. \<not> is_create_session ev) (fst (main_block W))) = [] \<and>
   (dunder_name W = ''__main__'' \<and> str_impl (lib W) (sre_pipeline W) = Inr s \<longrightarrow>
      filter is_create_session (fst (script W)) =
        [Ev_create_session ''u1'' ''sess1'' ''agents''] \<and>
      filter is_Runner (takeWhile (\<lambda>ev. \<not> is_create_session ev) (fst (script W))) = [] \<and>
      filter is_run (takeWhile (\<lambda>ev. \<not> is_create_session ev) (fst (script W))) = [])"
proof -
  have unchanged: "after_session (W\<lparr>create_session := other\<rparr>) svc' = after_session W svc'"
    by (simp add: after_session_def)
  have none: "filter is_create_session (fst (after_session W svc')) = []"
    by (simp add: after_session_cases report_loop_no_calls split: sum.splits)
  have once: "filter is_create_session (fst (main_block W)) =
     [Ev_create_session ''u1'' ''sess1'' ''agents'']"
    by (simp add: main_block_cases report_loop_no_calls split: sum.splits)
  have before: "takeWhile (\<lambda>ev. \<not> is_create_session ev) (fst (main_block W)) = [Ev_new_service]"
    by (simp add: main_block_cases split: sum.splits)
  have whole: "dunder_name W = ''__main__'' \<and> str_impl (lib W) (sre_pipeline W) = Inr s \<longrightarrow>
      filter is_create_session (fst (script W)) =
        [Ev_create_session ''u1'' ''sess1'' ''agents''] \<and>
      filter is_Runner (takeWhile (\<lambda>ev. \<not> is_create_session ev) (fst (script W))) = [] \<and>
      filter is_run (takeWhile (\<lambda>ev. \<not> is_create_session ev) (fst (script W))) = []"
    using once before by (simp add: script_cases filter_top_events)
  show ?thesis
    using main_block_after_session [of W] unchanged none once before whole by simp
qed

theorem create_session_called_once_witness:
  "dunder_name (demo_world [] [Yield Plain_dict]) = ''__main__'' \<and>
   str_impl (lib (demo_world [] [Yield Plain_dict])) (sre_pipeline (demo_world [] [Yield Plain_dict])) =
     Inr ''<SequentialAgent>'' \<and>
   create_session (demo_world [] [Yield Plain_dict])
     (InMemorySessionService (demo_world [] [Yield Plain_dict])) ''u1'' ''sess1'' ''agents'' =
     Inr [(''u1'', ''sess1'', ''agents'')] \<and>
   main_block (demo_world [] [Yield Plain_dict]) =
     ([Ev_new_service, Ev_create_session ''u1'' ''sess1'' ''agents'']
      @ fst (after_session (demo_world [] [Yield Plain_dict]) [(''u1'', ''sess1'', ''agents'')]),
      snd (after_session (demo_world [] [Yield Plain_dict]) [(''u1'', ''sess1'', ''agents'')])) \<and>
   filter is_create_session (fst (script (demo_world [] [Yield Plain_dict]))) =
     [Ev_create_session ''u1'' ''sess1'' ''agents''] \<and>
   filter is_Runner (takeWhile (\<lambda>ev. \<not> is_create_session ev)
     (fst (script (demo_world [] [Yield Plain_dict])))) = [] \<and>
   filter is_run (takeWhile (\<lambda>ev. \<not> is_create_session ev)
     (fst (script (demo_world [] [Yield Plain_dict])))) = []"
proof -
  let ?W = "demo_world [] [Yield Plain_dict]"
  have n: "dunder_name ?W = ''__main__''"
    by (simp add: demo_world_simps)
  have b: "str_impl (lib ?W) (sre_pipeline ?W) = Inr ''<SequentialAgent>''"
    by (simp add: demo_world_simps demo_lib_def)
  have c: "create_session ?W (InMemorySessionService ?W) ''u1'' ''sess1'' ''agents'' =
     Inr [(''u1'', ''sess1'', ''agents'')]"
    by (simp add: demo_world_simps)
  show ?thesis
    using n b c create_session_called_once [of ?W _ _ "''<SequentialAgent>''"]
    by simp
qed

text \<open>
  Claim C7. \<^verbatim>\<open>run\<close> is called at most once in the script, and exactly once when the
  session was created and the runner constructed; each time with \<^verbatim>\<open>user_id="u1"\<close>,
  \<^verbatim>\<open>session_id="sess1"\<close> and the one message whose role is user and whose parts are
  the single text part \<^verbatim>\<open>"run"\<close>. The stream the loop reads is what \<^verbatim>\<open>run\<close> returned
  for that very message.
\<close>

theorem runner_invoked_with_run_message:
  "(filter is_run (fst (script W)) = [] \<or>
    filter is_run (fst (script W)) = [Ev_run ''u1'' ''sess1'' (Content ''user'' [Part ''run''])]) \<and>
   (create_session W (InMemorySessionService W) ''u1'' ''sess1'' ''agents'' = Inr svc \<and>
    Runner W (sre_pipeline W) ''agents'' svc = Inr rn \<longrightarrow>
      filter is_run (fst (main_block W)) =
        [Ev_run ''u1'' ''sess1'' (Content ''user'' [Part ''run''])] \<and>
      (\<forall>g. run W rn ''u1'' ''sess1'' (Content ''user'' [Part ''run'']) = Inr g \<longrightarrow>
         main_block W =
           ([Ev_new_service, Ev_create_session ''u1'' ''sess1'' ''agents'',
             Ev_Runner (sre_pipeline W) ''agents'',
             Ev_stdout ''[DEBUG] Starting pipeline run...'',
             Ev_run ''u1'' ''sess1'' (Content ''user'' [Part ''run'']),
             Ev_stdout ''[DEBUG] Pipeline run complete. Results:'']
            @ fst (report_loop (lib W) g),
            snd (report_loop (lib W) g))))"
proof -
  have m: "filter is_run (fst (main_block W)) = [] \<or>
    filter is_run (fst (main_block W)) = [Ev_run ''u1'' ''sess1'' (Content ''user'' [Part ''run''])]"
    by (simp add: main_block_cases report_loop_no_calls UserContent_def split: sum.splits)
  have s: "filter is_run (fst (script W)) = [] \<or>
    filter is_run (fst (script W)) = [Ev_run ''u1'' ''sess1'' (Content ''user'' [Part ''run''])]"
    using m by (simp add: script_cases filter_top_events split: sum.splits)
  have c: "create_session W (InMemorySessionService W) ''u1'' ''sess1'' ''agents'' = Inr svc \<and>
    Runner W (sre_pipeline W) ''agents'' svc = Inr rn \<longrightarrow>
      filter is_run (fst (main_block W)) =
        [Ev_run ''u1'' ''sess1'' (Content ''user'' [Part ''run''])] \<and>
      (\<forall>g. run W rn ''u1'' ''sess1'' (Content ''user'' [Part ''run'']) = Inr g \<longrightarrow>
         main_block W =
           ([Ev_new_service, Ev_create_session ''u1'' ''sess1'' ''agents'',
             Ev_Runner (sre_pipeline W) ''agents'',
             Ev_stdout ''[DEBUG] Starting pipeline run...'',
             Ev_run ''u1'' ''sess1'' (Content ''user'' [Part ''run'']),
             Ev_stdout ''[DEBUG] Pipeline run complete. Results:'']
            @ fst (report_loop (lib W) g),
            snd (report_loop (lib W) g)))"
    by (simp add: main_block_cases report_loop_no_calls UserContent_def split: sum.splits)
  show ?thesis using s c by simp
qed

theorem runner_invoked_with_run_message_witness:
  "create_session (demo_world [] [Yield Plain_dict])
     (InMemorySessionService (demo_world [] [Yield Plain_dict])) ''u1'' ''sess1'' ''agents'' =
     Inr [(''u1'', ''sess1'', ''agents'')] \<and>
   Runner (demo_world [] [Yield Plain_dict]) (sre_pipeline (demo_world [] [Yield Plain_dict]))
     ''agents'' [(''u1'', ''sess1'', ''agents'')] =
     Inr (''agents'', [(''u1'', ''sess1'', ''agents'')]) \<and>
   run (demo_world [] [Yield Plain_dict]) (''agents'', [(''u1'', ''sess1'', ''agents'')])
     ''u1'' ''sess1'' (Content ''user'' [Part ''run'']) = Inr [Yield Plain_dict] \<and>
   filter is_run (fst (main_block (demo_world [] [Yield Plain_dict]))) =
     [Ev_run ''u1'' ''sess1'' (Content ''user'' [Part ''run''])] \<and>
   main_block (demo_world [] [Yield Plain_dict]) =
     ([Ev_new_service, Ev_create_session ''u1'' ''sess1'' ''agents'',
       Ev_Runner Pipeline_obj ''agents'',
       Ev_stdout ''[DEBUG] Starting pipeline run...'',
       Ev_run ''u1'' ''sess1'' (Content ''user'' [Part ''run'']),
       Ev_stdout ''[DEBUG] Pipeline run complete. Results:'',
       Ev_next, Ev_pprint Plain_dict, Ev_stdout ''{1: 2}'', Ev_next],
      Inr ())"
proof -
  let ?W = "demo_world [] [Yield Plain_dict]"
  have a: "create_session ?W (InMemorySessionService ?W) ''u1'' ''sess1'' ''agents'' =
     Inr [(''u1'', ''sess1'', ''agents'')]"
    by (simp add: demo_world_simps)
  have b: "Runner ?W (sre_pipeline ?W) ''agents'' [(''u1'', ''sess1'', ''agents'')] =
     Inr (''agents'', [(''u1'', ''sess1'', ''agents'')])"
    by (simp add: demo_world_simps)
  have c: "run ?W (''agents'', [(''u1'', ''sess1'', ''agents'')])
     ''u1'' ''sess1'' (Content ''user'' [Part ''run'']) = Inr [Yield Plain_dict]"
    by (simp add: demo_world_simps)
  have l: "lib ?W = demo_lib" "sre_pipeline ?W = Pipeline_obj"
    by (simp_all add: demo_world_simps)
  have r: "report_loop demo_lib [Yield Plain_dict] =
      ([Ev_next, Ev_pprint Plain_dict, Ev_stdout ''{1: 2}'', Ev_next], Inr ())"
    by (simp add: demo_simps)
  show ?thesis
    using a b c l r
      runner_invoked_with_run_message
        [of ?W "[(''u1'', ''sess1'', ''agents'')]" "(''agents'', [(''u1'', ''sess1'', ''agents'')])"]
    by simp
qed

section \<open>The module search path\<close>

lemma sys_path_after_append:
  "sys_path_after p (xs @ ys) = sys_path_after (sys_path_after p xs) ys"
  by (induction p xs rule: sys_path_after.induct) simp_all

lemma resolutions_append:
  "resolutions provides p found (xs @ ys) =
     resolutions provides (sys_path_after p xs) (resolutions provides p found xs) ys"
  by (induction provides p found xs rule: resolutions.induct) simp_all

lemma report_events_sys_path:
  "\<forall>ev \<in> set tr. is_report_event ev \<Longrightarrow> sys_path_after p tr = p"
proof (induction tr)
  case Nil
  show ?case by simp
next
  case (Cons ev tr)
  then have "is_report_event ev" and "sys_path_after p tr = p" by simp_all
  then show ?case by (cases ev) simp_all
qed

lemma report_events_resolutions:
  "\<forall>ev \<in> set tr. is_report_event ev \<Longrightarrow> resolutions provides p found tr = found"
proof (induction tr)
  case Nil
  show ?case by simp
next
  case (Cons ev tr)
  then have "is_report_event ev" and "resolutions provides p found tr = found" by simp_all
  then show ?case by (cases ev) simp_all
qed

lemma report_loop_inert:
  "sys_path_after p (fst (report_loop L g)) = p"
  "resolutions provides p found (fst (report_loop L g)) = found"
proof -
  have ev: "\<forall>ev \<in> set (fst (report_loop L g)). is_report_event ev"
    using report_loop_events by blast
  show "sys_path_after p (fst (report_loop L g)) = p"
    using ev by (rule report_events_sys_path)
  show "resolutions provides p found (fst (report_loop L g)) = found"
    using ev by (rule report_events_resolutions)
qed

lemma main_block_inert:
  "sys_path_after p (fst (main_block W)) = p"
  "resolutions provides p found (fst (main_block W)) = found"
  by (simp_all add: main_block_cases sys_path_after_append resolutions_append
      report_loop_inert split: sum.splits)

lemma sys_path_after_top_events:
  "sys_path_after p (top_events W) = current_dir W # p"
  by (simp add: top_events_def list_insert_def)

lemma resolutions_top_events:
  "resolutions provides p [] (top_events W) =
     [(''sys'', path_lookup provides p ''sys''),
      (''os'', path_lookup provides p ''os''),
      (''asyncio'', path_lookup provides p ''asyncio''),
      (''dotenv'', path_lookup provides p ''dotenv''),
      (''pprint'', path_lookup provides p ''pprint''),
      (''google'', path_lookup provides (current_dir W # p) ''google''),
      (''pipeline'', path_lookup provides (current_dir W # p) ''pipeline'')]"
  by (simp add: top_events_def top_level_def list_insert_def)

text \<open>
  Claim C8, amended. The script inserts the directory of its own file, the
  \<^verbatim>\<open>dirname\<close> of the \<^verbatim>\<open>abspath\<close> of \<^verbatim>\<open>__file__\<close>, at index 0 of the module search path,
  and changes the path in no other way. From the insertion on, a package that
  directory provides resolves to it, whatever the later entries provide: this holds of
  the packages first imported after the insertion, \<^verbatim>\<open>google\<close> and \<^verbatim>\<open>pipeline\<close>, and
  of every later search. The packages imported before the insertion, \<^verbatim>\<open>sys\<close>, \<^verbatim>\<open>os\<close>,
  \<^verbatim>\<open>asyncio\<close>, \<^verbatim>\<open>dotenv\<close> and \<^verbatim>\<open>pprint\<close>, are resolved against the path as it was.
\<close>

theorem script_dir_first_on_sys_path:
  "sys_path_after p (fst (script W)) =
     os_path_dirname W (os_path_abspath W (dunder_file W)) # p \<and>
   sys_path_after p (fst (script W)) ! 0 =
     os_path_dirname W (os_path_abspath W (dunder_file W)) \<and>
   resolutions provides p [] (fst (script W)) =
     [(''sys'', path_lookup provides p ''sys''),
      (''os'', path_lookup provides p ''os''),
      (''asyncio'', path_lookup provides p ''asyncio''),
      (''dotenv'', path_lookup provides p ''dotenv''),
      (''pprint'', path_lookup provides p ''pprint''),
      (''google'',
       path_lookup provides (os_path_dirname W (os_path_abspath W (dunder_file W)) # p) ''google''),
      (''pipeline'',
       path_lookup provides (os_path_dirname W (os_path_abspath W (dunder_file W)) # p) ''pipeline'')] \<and>
   (provides (os_path_dirname W (os_path_abspath W (dunder_file W))) name \<longrightarrow>
      path_lookup provides (sys_path_after p (fst (script W))) name =
        Some (os_path_dirname W (os_path_abspath W (dunder_file W))))"
proof -
  have path: "sys_path_after p (fst (script W)) = current_dir W # p"
    by (simp add: script_cases sys_path_after_append sys_path_after_top_events
        main_block_inert split: sum.splits)
  have found: "resolutions provides p [] (fst (script W)) =
      resolutions provides p [] (top_events W)"
    by (simp add: script_cases resolutions_append main_block_inert split: sum.splits)
  show ?thesis
    using path found
    by (simp add: resolutions_top_events path_lookup_def current_dir_def)
qed

theorem script_dir_first_on_sys_path_witness:
  "os_path_dirname (demo_world [] [Yield Plain_dict])
     (os_path_abspath (demo_world [] [Yield Plain_dict])
       (dunder_file (demo_world [] [Yield Plain_dict]))) = ''/srv/agents'' \<and>
   sys_path_after [''/usr/lib/python3/site-packages''] (fst (script (demo_world [] [Yield Plain_dict]))) =
     [''/srv/agents'', ''/usr/lib/python3/site-packages''] \<and>
   path_lookup demo_provides
     (sys_path_after [''/usr/lib/python3/site-packages''] (fst (script (demo_world [] [Yield Plain_dict]))))
     ''pipeline'' = Some ''/srv/agents'' \<and>
   map_of (resolutions demo_provides
     [''/usr/lib/python3/site-packages''] [] (fst (script (demo_world [] [Yield Plain_dict]))))
     ''pipeline'' = Some (Some ''/srv/agents'')"
proof -
  let ?W = "demo_world [] [Yield Plain_dict]"
  have d: "os_path_dirname ?W (os_path_abspath ?W (dunder_file ?W)) = ''/srv/agents''"
    by (simp add: demo_world_simps)
  show ?thesis
    using d script_dir_first_on_sys_path
      [of "[''/usr/lib/python3/site-packages'']" ?W
        demo_provides "''pipeline''"]
    by (simp add: path_lookup_def demo_provides_def)
qed

text \<open>
  As the claim is written, for every package name, it fails: \<^verbatim>\<open>dotenv\<close> is imported
  at line 15, before the insertion of line 23. When the path the script starts with
  does not hold its directory, a \<^verbatim>\<open>dotenv\<close> package in that directory loses to the
  installed one.
\<close>

theorem dotenv_resolved_before_insert:
  "demo_provides ''/srv/agents'' ''dotenv'' \<and>
   map_of (resolutions demo_provides
     [''/usr/lib/python3/site-packages''] [] (fst (script (demo_world [] [Yield Plain_dict]))))
     ''dotenv'' = Some (Some ''/usr/lib/python3/site-packages'')"
proof -
  let ?W = "demo_world [] [Yield Plain_dict]"
  have "resolutions demo_provides
      [''/usr/lib/python3/site-packages''] [] (fst (script ?W)) =
    resolutions demo_provides
      [''/usr/lib/python3/site-packages''] [] (top_events ?W)"
    by (simp add: script_cases resolutions_append main_block_inert split: sum.splits)
  then show ?thesis
    by (simp add: resolutions_top_events path_lookup_def demo_provides_def)
qed

section \<open>The order of the operations\<close>

lemma phase_ranks_append: "phase_ranks (xs @ ys) = phase_ranks xs @ phase_ranks ys"
  by (simp add: phase_ranks_def List.map_filter_def)

lemma phase_ranks_Cons:
  "phase_ranks (ev # tr) =
     (case phase_of ev of None \<Rightarrow> phase_ranks tr | Some ph \<Rightarrow> phase_rank ph # phase_ranks tr)"
  by (simp add: phase_ranks_def List.map_filter_def split: option.splits)

lemma phase_ranks_Nil: "phase_ranks [] = []"
  by (simp add: phase_ranks_def List.map_filter_def)

lemma phase_ranks_top_events:
  "phase_ranks (top_events W) = [0, 0, 0, 0, 0, 0, 0, 0, 0, 0, 0, 0, 0]"
  by (simp add: top_events_def phase_ranks_Cons phase_ranks_Nil)

lemma report_item_item_events: "ev \<in> set (fst (report_item L r)) \<Longrightarrow> is_item_event ev"
  by (auto simp: report_item_def try_except_Exception_def dunder_dict_def str_def
      print_text_def pprint_def call_def bnd_def
      split: sum.splits prod.splits option.splits if_splits)

lemma phase_ranks_item_events:
  "\<forall>ev \<in> set tr. is_item_event ev \<Longrightarrow> \<forall>k \<in> set (phase_ranks tr). k = 4"
proof (induction tr)
  case Nil
  show ?case by (simp add: phase_ranks_Nil)
next
  case (Cons ev tr)
  then have "is_item_event ev" and "\<forall>k \<in> set (phase_ranks tr). k = 4" by simp_all
  then show ?case by (cases ev) (simp_all add: phase_ranks_Cons)
qed

lemma phase_ranks_report_item:
  "phase_ranks (fst (report_item L r)) =
     replicate (length (phase_ranks (fst (report_item L r)))) 4"
proof -
  have "\<forall>ev \<in> set (fst (report_item L r)). is_item_event ev"
    by (simp add: report_item_item_events)
  then have "\<forall>k \<in> set (phase_ranks (fst (report_item L r))). k = 4"
    by (rule phase_ranks_item_events)
  then show ?thesis by (simp add: replicate_length_same)
qed

lemma phase_ranks_report_events:
  "\<forall>ev \<in> set tr. is_report_event ev \<Longrightarrow> \<forall>k \<in> set (phase_ranks tr). 3 \<le> k"
proof (induction tr)
  case Nil
  show ?case by (simp add: phase_ranks_Nil)
next
  case (Cons ev tr)
  then have "is_report_event ev" and "\<forall>k \<in> set (phase_ranks tr). 3 \<le> k" by simp_all
  then show ?case by (cases ev) (simp_all add: phase_ranks_Cons)
qed

lemma phase_ranks_report_loop: "\<forall>k \<in> set (phase_ranks (fst (report_loop L g))). 3 \<le> k"
proof -
  have "\<forall>ev \<in> set (fst (report_loop L g)). is_report_event ev"
    using report_loop_events by blast
  then show ?thesis by (rule phase_ranks_report_events)
qed

lemma sorted_constant: "\<forall>k \<in> set ks. k = (c::nat) \<Longrightarrow> sorted ks"
  by (induction ks) auto

lemma merged_report_loop:
  "\<forall>k \<in> set (map (min 3) (phase_ranks (fst (report_loop L g)))). k = 3"
  using phase_ranks_report_loop [of L g] by auto

lemma sorted_merged_main_block:
  "sorted (map (min 3) (phase_ranks (fst (main_block W)))) \<and>
   (\<forall>k \<in> set (map (min 3) (phase_ranks (fst (main_block W)))). 1 \<le> k)"
proof -
  have a: "sorted (map (min 3) (phase_ranks (fst (report_loop (lib W) g))))" for g
    using merged_report_loop by (rule sorted_constant)
  have b: "k \<in> set (phase_ranks (fst (report_loop (lib W) g))) \<Longrightarrow> 3 \<le> k" for g k
    using phase_ranks_report_loop by blast
  show ?thesis
    by (auto simp: main_block_cases phase_ranks_append phase_ranks_Cons phase_ranks_Nil a
        split: sum.splits dest: b)
qed

text \<open>
  Claim C6, amended. In every run of the script, whatever the collaborators do, the
  operations start in the order of the specification, each a call that has returned
  or raised before the next one starts: environment setup, then session creation, then
  runner construction, then execution; none of the earlier ones comes back once a
  later one has started, and when the session creation raises no later operation
  starts. Execution and result reporting are not one after the other: in the loop an
  item is obtained from the stream, then reported, and only then is the next item
  obtained. In a run where every call returns, the operations before the loop take
  place in that order and the loop follows.
\<close>

theorem script_stages_in_order:
  "sorted (map (min 3) (phase_ranks (fst (script W)))) \<and>
   (create_session W (InMemorySessionService W) ''u1'' ''sess1'' ''agents'' = Inl e \<longrightarrow>
      (\<forall>k \<in> set (phase_ranks (fst (script W))). k \<le> 1)) \<and>
   fst (report_loop L (Yield r # rest)) =
     Ev_next # fst (report_item L r) @
     (case snd (report_item L r) of Inl x \<Rightarrow> [] | Inr u \<Rightarrow> fst (report_loop L rest)) \<and>
   phase_ranks (fst (report_item L r)) =
     replicate (length (phase_ranks (fst (report_item L r)))) 4 \<and>
   (dunder_name W = ''__main__'' \<and>
    str_impl (lib W) (sre_pipeline W) = Inr s \<and>
    create_session W (InMemorySessionService W) ''u1'' ''sess1'' ''agents'' = Inr svc \<and>
    Runner W (sre_pipeline W) ''agents'' svc = Inr rn \<and>
    run W rn ''u1'' ''sess1'' (UserContent [Part ''run'']) = Inr g \<longrightarrow>
      phase_ranks (fst (script W)) =
        [0, 0, 0, 0, 0, 0, 0, 0, 0, 0, 0, 0, 0, 1, 1, 2, 3] @
        phase_ranks (fst (report_loop (lib W) g)))"
proof -
  have ordered: "sorted (map (min 3) (phase_ranks (fst (script W))))"
    using sorted_merged_main_block [of W]
    by (auto simp: script_cases phase_ranks_append phase_ranks_Cons phase_ranks_Nil
        phase_ranks_top_events sorted_append split: sum.splits)
  have stopped: "create_session W (InMemorySessionService W) ''u1'' ''sess1'' ''agents'' = Inl e \<longrightarrow>
      (\<forall>k \<in> set (phase_ranks (fst (script W))). k \<le> 1)"
    by (auto simp: script_cases main_block_cases phase_ranks_append phase_ranks_Cons
        phase_ranks_Nil phase_ranks_top_events split: sum.splits)
  have step: "fst (report_loop L (Yield r # rest)) =
     Ev_next # fst (report_item L r) @
     (case snd (report_item L r) of Inl x \<Rightarrow> [] | Inr u \<Rightarrow> fst (report_loop L rest))"
    by (simp add: report_loop_Yield split: sum.splits)
  have complete: "dunder_name W = ''__main__'' \<and>
    str_impl (lib W) (sre_pipeline W) = Inr s \<and>
    create_session W (InMemorySessionService W) ''u1'' ''sess1'' ''agents'' = Inr svc \<and>
    Runner W (sre_pipeline W) ''agents'' svc = Inr rn \<and>
    run W rn ''u1'' ''sess1'' (UserContent [Part ''run'']) = Inr g \<longrightarrow>
      phase_ranks (fst (script W)) =
        [0, 0, 0, 0, 0, 0, 0, 0, 0, 0, 0, 0, 0, 1, 1, 2, 3] @
        phase_ranks (fst (report_loop (lib W) g))"
    by (auto simp: script_cases main_block_cases phase_ranks_append phase_ranks_Cons
        phase_ranks_Nil phase_ranks_top_events)
  show ?thesis
    using ordered stopped step complete phase_ranks_report_item [of L r] by simp
qed

theorem script_stages_in_order_witness:
  "phase_ranks (fst (script (demo_world [] [Yield Plain_dict]))) =
     [0, 0, 0, 0, 0, 0, 0, 0, 0, 0, 0, 0, 0, 1, 1, 2, 3, 3, 4, 3] \<and>
   sorted (map (min 3) (phase_ranks (fst (script (demo_world [] [Yield Plain_dict]))))) \<and>
   create_session (demo_world [(''u1'', ''sess1'', ''agents'')] [])
     (InMemorySessionService (demo_world [(''u1'', ''sess1'', ''agents'')] []))
     ''u1'' ''sess1'' ''agents'' = Inl (ValueError ''session already exists'') \<and>
   list_all (\<lambda>k. k \<le> 1)
     (phase_ranks (fst (script (demo_world [(''u1'', ''sess1'', ''agents'')] []))))"
proof -
  let ?W = "demo_world [] [Yield Plain_dict]"
  let ?V = "demo_world [(''u1'', ''sess1'', ''agents'')] []"
  have n: "dunder_name ?W = ''__main__''"
    by (simp add: demo_world_simps)
  have b: "str_impl (lib ?W) (sre_pipeline ?W) = Inr ''<SequentialAgent>''"
    by (simp add: demo_world_simps demo_lib_def)
  have c: "create_session ?W (InMemorySessionService ?W) ''u1'' ''sess1'' ''agents'' =
     Inr [(''u1'', ''sess1'', ''agents'')]"
    by (simp add: demo_world_simps)
  have r: "Runner ?W (sre_pipeline ?W) ''agents'' [(''u1'', ''sess1'', ''agents'')] =
     Inr (''agents'', [(''u1'', ''sess1'', ''agents'')])"
    by (simp add: demo_world_simps)
  have g: "run ?W (''agents'', [(''u1'', ''sess1'', ''agents'')])
     ''u1'' ''sess1'' (UserContent [Part ''run'']) = Inr [Yield Plain_dict]"
    by (simp add: demo_world_simps)
  have l: "phase_ranks (fst (report_loop (lib ?W) [Yield Plain_dict])) = [3, 4, 3]"
    by (simp add: demo_world_def demo_simps phase_ranks_Cons phase_ranks_Nil)
  have f: "create_session ?V (InMemorySessionService ?V) ''u1'' ''sess1'' ''agents'' =
     Inl (ValueError ''session already exists'')"
    by (simp add: demo_world_simps)
  have run_ok: "phase_ranks (fst (script ?W)) =
      [0, 0, 0, 0, 0, 0, 0, 0, 0, 0, 0, 0, 0, 1, 1, 2, 3, 3, 4, 3] \<and>
      sorted (map (min 3) (phase_ranks (fst (script ?W))))"
    using n b c r g l
      script_stages_in_order
        [of ?W KeyboardInterrupt demo_lib Plain_dict "[]" "''<SequentialAgent>''" "[(''u1'', ''sess1'', ''agents'')]"
          "(''agents'', [(''u1'', ''sess1'', ''agents'')])" "[Yield Plain_dict]"]
    by simp
  have run_failed: "list_all (\<lambda>k. k \<le> 1) (phase_ranks (fst (script ?V)))"
    using f script_stages_in_order
        [of ?V "ValueError ''session already exists''" demo_lib Plain_dict "[]"]
    by (simp add: list_all_iff)
  show ?thesis using run_ok run_failed f by simp
qed

text \<open>
  As the claim is written, execution and then result reporting, with no overlap, it
  fails as soon as the stream yields an item: the stream is asked again after the item
  has been reported. With two items, the second is obtained after the first was
  printed.
\<close>

theorem execution_and_reporting_alternate:
  "phase_ranks (fst (script (demo_world [] [Yield Plain_dict, Yield Number]))) =
     [0, 0, 0, 0, 0, 0, 0, 0, 0, 0, 0, 0, 0, 1, 1, 2, 3, 3, 4, 3, 4, 4, 3] \<and>
   \<not> sorted (phase_ranks (fst (script (demo_world [] [Yield Plain_dict, Yield Number]))))"
proof -
  let ?W = "demo_world [] [Yield Plain_dict, Yield Number]"
  have l: "phase_ranks (fst (report_loop demo_lib [Yield Plain_dict, Yield Number])) =
      [3, 4, 3, 4, 4, 3]"
    by (simp add: demo_simps phase_ranks_Cons phase_ranks_Nil)
  have "phase_ranks (fst (script ?W)) =
     [0, 0, 0, 0, 0, 0, 0, 0, 0, 0, 0, 0, 0, 1, 1, 2, 3, 3, 4, 3, 4, 4, 3]"
    using l
    by (simp add: script_cases main_block_cases demo_world_simps demo_lib_def
        phase_ranks_append phase_ranks_Cons phase_ranks_Nil phase_ranks_top_events)
  then show ?thesis by simp
qed


end
